theory Spec2Isabelle
  imports Main
begin

section \<open>The shared objects of the musical-chairs simulation\<close>

text \<open>
  The program (\<^verbatim>\<open>src/main.cpp\<close>) has three global synchronisation objects, a
  counting semaphore \<^verbatim>\<open>cadeira_sem\<close> and the atomic flags \<^verbatim>\<open>musica_parada\<close> and
  \<^verbatim>\<open>jogo_ativo\<close>, and one object of class \<^verbatim>\<open>JogoDasCadeiras\<close> with the fields
  \<^verbatim>\<open>num_jogadores\<close>, \<^verbatim>\<open>cadeiras\<close> and \<^verbatim>\<open>jogadores_restantes\<close>. They are gathered
  in one record. The C++ \<^verbatim>\<open>int\<close> fields are modelled by \<open>int\<close>: the program only
  ever subtracts 1 from them, so the two agree until a field has been decremented
  down to the least 32-bit value, where the C++ decrement is undefined. What the
  program writes to \<^verbatim>\<open>cout\<close> is kept as a list of events, in the order of the
  writes.
\<close>

definition NUM_JOGADORES :: int where
  "NUM_JOGADORES = 4"

datatype evento =
    IniciandoRodada int int
  | MusicaParou
  | ConseguiuCadeira int
  | Eliminado int
  | EstadoExibido int int
  | Vencedor

record estado =
  cadeira_sem :: nat
  musica_parada :: bool
  jogo_ativo :: bool
  num_jogadores :: int
  cadeiras :: int
  jogadores_restantes :: int
  saida :: "evento list"

subsection \<open>The counting semaphore\<close>

text \<open>
  \<^verbatim>\<open>std::counting_semaphore<NUM_JOGADORES>\<close> is a counter that is never negative.
  \<^verbatim>\<open>try_acquire\<close> decrements it when it is positive and reports whether it did; it
  never waits. \<^verbatim>\<open>release(update)\<close> adds \<open>update\<close>; the C++ standard requires
  \<open>0 \<le> update\<close> and \<open>update \<le> max() - counter\<close> and leaves the behaviour undefined
  otherwise, which the model returns as \<open>None\<close>. \<open>max()\<close> is at least the template
  argument by the standard, and exactly the template argument in libstdc++, libc++
  and the Microsoft library; the model takes it to be the template argument, the
  smallest value allowed, so whatever is defined here is defined there.
\<close>

definition sem_max :: int where
  "sem_max = NUM_JOGADORES"

definition try_acquire :: "nat \<Rightarrow> bool \<times> nat" where
  "try_acquire p = (if 0 < p then (True, p - 1) else (False, p))"

definition release :: "int \<Rightarrow> nat \<Rightarrow> nat option" where
  "release update p =
     (if 0 \<le> update \<and> update \<le> sem_max - int p then Some (p + nat update) else None)"

subsection \<open>Class \<^verbatim>\<open>JogoDasCadeiras\<close>\<close>

text \<open>
  The constructor, together with the initial values of the globals:
  \<^verbatim>\<open>cadeira_sem(NUM_JOGADORES - 1)\<close>, \<^verbatim>\<open>musica_parada{false}\<close>, \<^verbatim>\<open>jogo_ativo{true}\<close>.
\<close>

definition JogoDasCadeiras :: "int \<Rightarrow> estado" where
  "JogoDasCadeiras n =
     \<lparr> cadeira_sem = nat (NUM_JOGADORES - 1),
       musica_parada = False,
       jogo_ativo = True,
       num_jogadores = n,
       cadeiras = n - 1,
       jogadores_restantes = n,
       saida = [] \<rparr>"

text \<open>
  The loop \<^verbatim>\<open>while (cadeira_sem.try_acquire()) ++esgotar;\<close> of \<^verbatim>\<open>iniciar_rodada\<close>,
  on the permit count and the local counter.
\<close>

function esgotar_loop :: "nat \<Rightarrow> int \<Rightarrow> nat \<times> int" where
  "esgotar_loop p esgotar =
     (if fst (try_acquire p) then esgotar_loop (snd (try_acquire p)) (esgotar + 1)
      else (snd (try_acquire p), esgotar))"
  by pat_completeness auto
termination
  by (relation "measure fst") (auto simp: try_acquire_def split: if_splits)

declare esgotar_loop.simps [simp del]

text \<open>
  Lines 56 to 61 of \<^verbatim>\<open>iniciar_rodada\<close>: the drain loop followed by
  \<^verbatim>\<open>cadeira_sem.release(cadeiras)\<close>. The specification calls this part
  \<open>resize_and_refill\<close>; the argument is the value of \<^verbatim>\<open>cadeiras\<close>.
\<close>

definition resize_and_refill :: "int \<Rightarrow> nat \<Rightarrow> nat option" where
  "resize_and_refill newCount p = release newCount (fst (esgotar_loop p 0))"

definition iniciar_rodada :: "estado \<Rightarrow> estado option" where
  "iniciar_rodada s =
     (let c = (if cadeiras s > 1 then cadeiras s - 1 else cadeiras s) in
      case resize_and_refill c (cadeira_sem s) of
        None \<Rightarrow> None
      | Some p \<Rightarrow>
          Some (s\<lparr> cadeiras := c, cadeira_sem := p, musica_parada := False,
                   saida := saida s @ [IniciandoRodada (jogadores_restantes s) (NUM_JOGADORES - 1)] \<rparr>))"

definition parar_musica :: "estado \<Rightarrow> estado" where
  "parar_musica s = s\<lparr> musica_parada := True, saida := saida s @ [MusicaParou] \<rparr>"

definition getJogadoresRestantes :: "estado \<Rightarrow> int" where
  "getJogadoresRestantes s = jogadores_restantes s"

definition eliminar_jogador :: "int \<Rightarrow> estado \<Rightarrow> estado" where
  "eliminar_jogador jogador_id s =
     s\<lparr> jogadores_restantes := jogadores_restantes s - 1,
        saida := saida s @ [Eliminado jogador_id] \<rparr>"

definition exibir_estado :: "estado \<Rightarrow> estado" where
  "exibir_estado s = s\<lparr> saida := saida s @ [EstadoExibido (jogadores_restantes s) (cadeiras s)] \<rparr>"

text \<open>\<^verbatim>\<open>Coordenador::liberar_threads_eliminadas\<close>: \<^verbatim>\<open>cadeira_sem.release(NUM_JOGADORES - 1)\<close>.\<close>

definition liberar_threads_eliminadas :: "estado \<Rightarrow> estado option" where
  "liberar_threads_eliminadas s =
     (case release (NUM_JOGADORES - 1) (cadeira_sem s) of
        None \<Rightarrow> None
      | Some p \<Rightarrow> Some (s\<lparr> cadeira_sem := p \<rparr>))"

subsection \<open>Class \<^verbatim>\<open>Jogador\<close>\<close>

text \<open>
  A player object has the fields \<^verbatim>\<open>id\<close> and \<^verbatim>\<open>eliminado\<close>. Its thread runs
  \<^verbatim>\<open>joga\<close>; \<open>pcj\<close> is the place in \<^verbatim>\<open>joga\<close> where the thread stands:
  \<^item> \<open>J_while\<close>: at the test \<^verbatim>\<open>while (jogo_ativo.load())\<close>;
  \<^item> \<open>J_wait\<close>: in \<^verbatim>\<open>music_cv.wait\<close>, which returns only when
    \<^verbatim>\<open>musica_parada.load() || !jogo_ativo.load()\<close> holds (the step can be taken
    whenever it holds: a condition variable may wake up without a notification);
  \<^item> \<open>J_check\<close>: at \<^verbatim>\<open>if (!jogo_ativo.load()) break; if (eliminado) return;\<close>;
  \<^item> \<open>J_tentar\<close>: before \<^verbatim>\<open>tentar_ocupar_cadeira()\<close>;
  \<^item> \<open>J_verificar\<close>: before \<^verbatim>\<open>verificar_eliminacao()\<close>;
  \<^item> \<open>J_flag\<close>: inside \<^verbatim>\<open>verificar_eliminacao\<close>, after \<^verbatim>\<open>eliminar_jogador\<close> and
    before \<^verbatim>\<open>jogo_ativo = false\<close>;
  \<^item> \<open>J_fim\<close>: \<^verbatim>\<open>joga\<close> has returned.
\<close>

datatype pc_jogador = J_while | J_wait | J_check | J_tentar | J_verificar | J_flag | J_fim

record jogador =
  jid :: int
  eliminado :: bool
  pcj :: pc_jogador

definition tentar_ocupar_cadeira :: "jogador \<Rightarrow> estado \<Rightarrow> jogador \<times> estado" where
  "tentar_ocupar_cadeira j s =
     (if fst (try_acquire (cadeira_sem s))
      then (j, s\<lparr> cadeira_sem := snd (try_acquire (cadeira_sem s)),
                  saida := saida s @ [ConseguiuCadeira (jid j)] \<rparr>)
      else (j\<lparr> eliminado := True \<rparr>, s\<lparr> cadeira_sem := snd (try_acquire (cadeira_sem s)) \<rparr>))"

definition verificar_eliminacao :: "jogador \<Rightarrow> estado \<Rightarrow> estado" where
  "verificar_eliminacao j s =
     (if eliminado j then (eliminar_jogador (jid j) s)\<lparr> jogo_ativo := False \<rparr> else s)"

section \<open>The threads\<close>

text \<open>
  \<^verbatim>\<open>main\<close> starts one thread per player and one for the coordinator. The threads
  are interleaved: a step is one thread performing its next action on the shared
  objects. \<open>pc_coord\<close> is the place of the coordinator in \<^verbatim>\<open>iniciar_jogo\<close>:
  \<^item> \<open>C_while\<close>: at the test \<^verbatim>\<open>while (jogo.getJogadoresRestantes() > 1)\<close>;
  \<^item> \<open>C_iniciar\<close>: entering \<^verbatim>\<open>iniciar_rodada\<close> (taking \<^verbatim>\<open>jogo_mutex\<close>, adjusting
    \<^verbatim>\<open>cadeiras\<close>);
  \<^item> \<open>C_esgotar\<close>: at the test of the drain loop;
  \<^item> \<open>C_release\<close>: before \<^verbatim>\<open>cadeira_sem.release(cadeiras)\<close>;
  \<^item> \<open>C_musica\<close>: before \<^verbatim>\<open>musica_parada.store(false)\<close>, the message and the end of
    \<^verbatim>\<open>iniciar_rodada\<close>, which gives \<^verbatim>\<open>jogo_mutex\<close> back;
  \<^item> \<open>C_parar\<close>: before \<^verbatim>\<open>parar_musica()\<close>;
  \<^item> \<open>C_liberar\<close>: before \<^verbatim>\<open>liberar_threads_eliminadas()\<close>;
  \<^item> \<open>C_vencedor\<close>: after the loop, before the message and \<^verbatim>\<open>jogo_ativo = false\<close>;
  \<^item> \<open>C_fim\<close>: \<^verbatim>\<open>iniciar_jogo\<close> has returned.
  The two \<^verbatim>\<open>sleep_for\<close> calls change no object; when the other threads run
  in the meantime is the choice of the schedule. \<open>jogo_mutex\<close> tells whether the
  mutex of the game object is held; \<^verbatim>\<open>getJogadoresRestantes\<close> and
  \<^verbatim>\<open>eliminar_jogador\<close> hold it for one step only, \<^verbatim>\<open>iniciar_rodada\<close> from
  \<open>C_iniciar\<close> to \<open>C_musica\<close>. A step that is \<open>None\<close> cannot be taken: the thread
  waits, has returned, or breaks a precondition of \<^verbatim>\<open>release\<close>.
\<close>

datatype pc_coord =
  C_while | C_iniciar | C_esgotar | C_release | C_musica | C_parar | C_liberar | C_vencedor | C_fim

record sistema =
  mem :: estado
  jogo_mutex :: bool
  jogadores :: "jogador list"
  coord :: pc_coord
  esgotar :: int

datatype thread = Coord | Jog nat

definition passo_jogador :: "jogador \<Rightarrow> estado \<Rightarrow> bool \<Rightarrow> (jogador \<times> estado) option" where
  "passo_jogador j s mutex =
     (case pcj j of
        J_while \<Rightarrow> Some (j\<lparr> pcj := (if jogo_ativo s then J_wait else J_fim) \<rparr>, s)
      | J_wait \<Rightarrow>
          if musica_parada s \<or> \<not> jogo_ativo s then Some (j\<lparr> pcj := J_check \<rparr>, s) else None
      | J_check \<Rightarrow>
          Some (j\<lparr> pcj := (if \<not> jogo_ativo s then J_fim
                            else if eliminado j then J_fim else J_tentar) \<rparr>, s)
      | J_tentar \<Rightarrow>
          Some ((fst (tentar_ocupar_cadeira j s))\<lparr> pcj := J_verificar \<rparr>,
                snd (tentar_ocupar_cadeira j s))
      | J_verificar \<Rightarrow>
          if eliminado j
          then (if mutex then None
                else Some (j\<lparr> pcj := J_flag \<rparr>, eliminar_jogador (jid j) s))
          else Some (j\<lparr> pcj := J_while \<rparr>, s)
      | J_flag \<Rightarrow>
          Some (j\<lparr> pcj := (if eliminado j then J_fim else J_while) \<rparr>, s\<lparr> jogo_ativo := False \<rparr>)
      | J_fim \<Rightarrow> None)"

definition passo_coord :: "sistema \<Rightarrow> sistema option" where
  "passo_coord s =
     (case coord s of
        C_while \<Rightarrow>
          if jogo_mutex s then None
          else Some (s\<lparr> coord := (if getJogadoresRestantes (mem s) > 1 then C_iniciar
                                    else C_vencedor) \<rparr>)
      | C_iniciar \<Rightarrow>
          if jogo_mutex s then None
          else Some (s\<lparr> mem := (mem s)\<lparr> cadeiras := (if cadeiras (mem s) > 1
                                                       then cadeiras (mem s) - 1
                                                       else cadeiras (mem s)) \<rparr>,
                        jogo_mutex := True, esgotar := 0, coord := C_esgotar \<rparr>)
      | C_esgotar \<Rightarrow>
          if fst (try_acquire (cadeira_sem (mem s)))
          then Some (s\<lparr> mem := (mem s)\<lparr> cadeira_sem := snd (try_acquire (cadeira_sem (mem s))) \<rparr>,
                        esgotar := esgotar s + 1 \<rparr>)
          else Some (s\<lparr> coord := C_release \<rparr>)
      | C_release \<Rightarrow>
          (case release (cadeiras (mem s)) (cadeira_sem (mem s)) of
             None \<Rightarrow> None
           | Some p \<Rightarrow> Some (s\<lparr> mem := (mem s)\<lparr> cadeira_sem := p \<rparr>, coord := C_musica \<rparr>))
      | C_musica \<Rightarrow>
          Some (s\<lparr> mem := (mem s)\<lparr> musica_parada := False,
                                   saida := saida (mem s) @
                                     [IniciandoRodada (jogadores_restantes (mem s))
                                        (NUM_JOGADORES - 1)] \<rparr>,
                   jogo_mutex := False, coord := C_parar \<rparr>)
      | C_parar \<Rightarrow> Some (s\<lparr> mem := parar_musica (mem s), coord := C_liberar \<rparr>)
      | C_liberar \<Rightarrow>
          (case liberar_threads_eliminadas (mem s) of
             None \<Rightarrow> None
           | Some m \<Rightarrow> Some (s\<lparr> mem := m, coord := C_while \<rparr>))
      | C_vencedor \<Rightarrow>
          Some (s\<lparr> mem := (mem s)\<lparr> saida := saida (mem s) @ [Vencedor], jogo_ativo := False \<rparr>,
                   coord := C_fim \<rparr>)
      | C_fim \<Rightarrow> None)"

fun step :: "thread \<Rightarrow> sistema \<Rightarrow> sistema option" where
  "step Coord s = passo_coord s"
| "step (Jog i) s =
     (if i < length (jogadores s)
      then (case passo_jogador (jogadores s ! i) (mem s) (jogo_mutex s) of
              None \<Rightarrow> None
            | Some r \<Rightarrow> Some (s\<lparr> jogadores := (jogadores s)[i := fst r], mem := snd r \<rparr>))
      else None)"

fun exec :: "thread list \<Rightarrow> sistema \<Rightarrow> sistema option" where
  "exec [] s = Some s"
| "exec (t # ts) s = (case step t s of None \<Rightarrow> None | Some s' \<Rightarrow> exec ts s')"

text \<open>
  \<^verbatim>\<open>main\<close>: the game object for \<^verbatim>\<open>NUM_JOGADORES\<close> players, the players with the
  ids 1 to \<^verbatim>\<open>NUM_JOGADORES\<close>, every thread at the start of its function.
\<close>

definition sistema_inicial :: sistema where
  "sistema_inicial =
     \<lparr> mem = JogoDasCadeiras NUM_JOGADORES,
       jogo_mutex = False,
       jogadores = map (\<lambda>i. \<lparr> jid = i, eliminado = False, pcj = J_while \<rparr>) [1..NUM_JOGADORES],
       coord = C_while,
       esgotar = 0 \<rparr>"

section \<open>Notions used in the properties\<close>

text \<open>
  A call of a public method of \<^verbatim>\<open>JogoDasCadeiras\<close> by a single caller, and a
  sequence of such calls. \<^verbatim>\<open>getJogadoresRestantes\<close> only reads.
\<close>

datatype chamada =
  IniciarRodada | PararMusica | GetJogadoresRestantes | EliminarJogador int | ExibirEstado

fun chamar :: "chamada \<Rightarrow> estado \<Rightarrow> estado option" where
  "chamar IniciarRodada s = iniciar_rodada s"
| "chamar PararMusica s = Some (parar_musica s)"
| "chamar GetJogadoresRestantes s = Some s"
| "chamar (EliminarJogador i) s = Some (eliminar_jogador i s)"
| "chamar ExibirEstado s = Some (exibir_estado s)"

fun chamar_todas :: "chamada list \<Rightarrow> estado \<Rightarrow> estado option" where
  "chamar_todas [] s = Some s"
| "chamar_todas (c # cs) s =
     (case chamar c s of None \<Rightarrow> None | Some s' \<Rightarrow> chamar_todas cs s')"

text \<open>
  The number of claims by players that have succeeded so far: a player writes
  \<open>ConseguiuCadeira\<close> exactly when its \<^verbatim>\<open>try_acquire\<close> returned true.
\<close>

fun conseguiu :: "evento \<Rightarrow> bool" where
  "conseguiu (ConseguiuCadeira i) = True"
| "conseguiu e = False"

definition sucessos :: "sistema \<Rightarrow> nat" where
  "sucessos s = length (filter conseguiu (saida (mem s)))"

text \<open>
  The steps that add permits: the refill \<^verbatim>\<open>release(cadeiras)\<close> of \<^verbatim>\<open>iniciar_rodada\<close>
  and the bulk release of \<^verbatim>\<open>liberar_threads_eliminadas\<close>. \<open>sem_liberacao ts s\<close> says
  that the schedule \<open>ts\<close>, run from \<open>s\<close>, takes none of them.
\<close>

definition liberacao :: "thread \<Rightarrow> sistema \<Rightarrow> bool" where
  "liberacao t s = (t = Coord \<and> (coord s = C_release \<or> coord s = C_liberar))"

fun sem_liberacao :: "thread list \<Rightarrow> sistema \<Rightarrow> bool" where
  "sem_liberacao [] s = True"
| "sem_liberacao (t # ts) s =
     (\<not> liberacao t s \<and> (case step t s of None \<Rightarrow> True | Some s' \<Rightarrow> sem_liberacao ts s'))"

text \<open>
  Two schedules of the four-player game. In both, the players first reach
  \<^verbatim>\<open>music_cv.wait\<close>, the coordinator runs the first round up to and including
  \<^verbatim>\<open>parar_musica\<close>, and every player wakes up and passes the two tests.

  In \<open>agenda_presa\<close> players 1 and 2 then take the two chairs, players 3 and 4
  fail, are eliminated and clear \<^verbatim>\<open>jogo_ativo\<close>; players 1 and 2 see the cleared
  flag at \<^verbatim>\<open>while (jogo_ativo.load())\<close> and return. The coordinator then finishes
  the round and runs one more.

  In \<open>agenda_zero\<close> players 1 and 2 take the two chairs and come round the loop
  to a second \<^verbatim>\<open>tentar_ocupar_cadeira\<close> (\<^verbatim>\<open>musica_parada\<close> is still true) before
  anybody has cleared \<^verbatim>\<open>jogo_ativo\<close>; then all four fail. The coordinator finishes
  the round and leaves its loop.
\<close>

definition todos :: "thread list" where
  "todos = [Jog 0, Jog 1, Jog 2, Jog 3]"

definition agenda_presa :: "thread list" where
  "agenda_presa =
     todos @ replicate 9 Coord @ todos @ todos @ todos @
     [Jog 2, Jog 2, Jog 3, Jog 3, Jog 0, Jog 0, Jog 1, Jog 1] @
     replicate 11 Coord"

definition agenda_zero :: "thread list" where
  "agenda_zero =
     todos @ replicate 9 Coord @ todos @ todos @
     [Jog 0, Jog 1] @ [Jog 0, Jog 1] @ [Jog 0, Jog 1] @ [Jog 0, Jog 1] @ [Jog 0, Jog 1] @
     todos @ todos @ todos @
     replicate 3 Coord"

text \<open>
  The state of the first round in which the music has stopped and all four
  players stand before \<^verbatim>\<open>tentar_ocupar_cadeira\<close>, with the two permits of the round
  in the semaphore; and a schedule that goes on from there until players 1 and 2
  have taken them.
\<close>

definition corrida :: sistema where
  "corrida =
     \<lparr> mem = \<lparr> cadeira_sem = 2, musica_parada = True, jogo_ativo = True, num_jogadores = 4,
               cadeiras = 2, jogadores_restantes = 4,
               saida = [IniciandoRodada 4 3, MusicaParou] \<rparr>,
       jogo_mutex = False,
       jogadores = [\<lparr> jid = 1, eliminado = False, pcj = J_tentar \<rparr>,
                    \<lparr> jid = 2, eliminado = False, pcj = J_tentar \<rparr>,
                    \<lparr> jid = 3, eliminado = False, pcj = J_tentar \<rparr>,
                    \<lparr> jid = 4, eliminado = False, pcj = J_tentar \<rparr>],
       coord = C_liberar,
       esgotar = 3 \<rparr>"

definition agenda_corrida :: "thread list" where
  "agenda_corrida = todos @ replicate 9 Coord @ todos @ todos"

definition agenda_disputa :: "thread list" where
  "agenda_disputa = agenda_corrida @ [Jog 0, Jog 1]"

text \<open>
  The states in which every player thread has returned while two players remain
  and one chair is left, with the coordinator anywhere in its loop.
\<close>

definition preso :: "sistema \<Rightarrow> bool" where
  "preso s =
     (list_all (\<lambda>j. pcj j = J_fim) (jogadores s) \<and>
      jogadores_restantes (mem s) = 2 \<and> cadeiras (mem s) = 1 \<and>
      (case coord s of
         C_while \<Rightarrow> \<not> jogo_mutex s \<and> cadeira_sem (mem s) \<le> 4
       | C_iniciar \<Rightarrow> \<not> jogo_mutex s \<and> cadeira_sem (mem s) \<le> 4
       | C_esgotar \<Rightarrow> cadeira_sem (mem s) \<le> 4
       | C_release \<Rightarrow> cadeira_sem (mem s) = 0
       | C_musica \<Rightarrow> cadeira_sem (mem s) = 1
       | C_parar \<Rightarrow> \<not> jogo_mutex s \<and> cadeira_sem (mem s) = 1
       | C_liberar \<Rightarrow> \<not> jogo_mutex s \<and> cadeira_sem (mem s) = 1
       | C_vencedor \<Rightarrow> False
       | C_fim \<Rightarrow> False))"

text \<open>
  What holds of the player with index \<open>i\<close> in every state the game reaches: its
  id, where a player marked as eliminated can stand, how often its elimination
  has been reported, and that the flag is cleared once it has returned.
\<close>

definition jogador_inv :: "estado \<Rightarrow> nat \<Rightarrow> jogador \<Rightarrow> bool" where
  "jogador_inv m i j =
     (jid j = int i + 1 \<and>
      (eliminado j \<longrightarrow> pcj j = J_verificar \<or> pcj j = J_flag \<or> pcj j = J_fim) \<and>
      (pcj j = J_flag \<longrightarrow> eliminado j) \<and>
      count_list (saida m) (Eliminado (jid j)) =
        (if eliminado j \<and> (pcj j = J_flag \<or> pcj j = J_fim) then 1 else 0) \<and>
      (eliminado j \<and> pcj j = J_fim \<longrightarrow> \<not> jogo_ativo m))"

definition sistema_inv :: "sistema \<Rightarrow> bool" where
  "sistema_inv s = (\<forall>i < length (jogadores s). jogador_inv (mem s) i (jogadores s ! i))"

section \<open>The semaphore and the start of a round\<close>

lemma try_acquire_simps:
  "try_acquire 0 = (False, 0)" "try_acquire (Suc p) = (True, p)"
  by (simp_all add: try_acquire_def)

text \<open>The drain loop empties the semaphore and counts what it took.\<close>

lemma esgotar_loop_eq: "esgotar_loop p e = (0, e + int p)"
proof (induction p arbitrary: e)
  case 0
  show ?case by (subst esgotar_loop.simps) (simp add: try_acquire_simps)
next
  case (Suc p)
  show ?case by (subst esgotar_loop.simps) (simp add: try_acquire_simps Suc.IH)
qed

lemma release_zero: "0 \<le> c \<Longrightarrow> c \<le> sem_max \<Longrightarrow> release c 0 = Some (nat c)"
  by (simp add: release_def)

lemma resize_and_refill_eq:
  "0 \<le> c \<Longrightarrow> c \<le> sem_max \<Longrightarrow> resize_and_refill c p = Some (nat c)"
  by (simp add: resize_and_refill_def esgotar_loop_eq release_zero)

lemma resize_and_refill_None:
  "\<not> (0 \<le> c \<and> c \<le> sem_max) \<Longrightarrow> resize_and_refill c p = None"
  by (auto simp add: resize_and_refill_def esgotar_loop_eq release_def)

text \<open>
  \<^verbatim>\<open>iniciar_rodada\<close> in closed form. It is defined exactly when the new value of
  \<^verbatim>\<open>cadeiras\<close> is a legal argument of \<^verbatim>\<open>release\<close> on the emptied semaphore.
\<close>

lemma iniciar_rodada_eq:
  "iniciar_rodada s =
    (if 0 \<le> cadeiras s \<and> cadeiras s \<le> sem_max + 1
     then Some (s\<lparr> cadeiras := (if cadeiras s > 1 then cadeiras s - 1 else cadeiras s),
                   cadeira_sem := nat (if cadeiras s > 1 then cadeiras s - 1 else cadeiras s),
                   musica_parada := False,
                   saida := saida s @ [IniciandoRodada (jogadores_restantes s) (NUM_JOGADORES - 1)] \<rparr>)
     else None)"
proof (cases "0 \<le> cadeiras s \<and> cadeiras s \<le> sem_max + 1")
  case True
  then have "0 \<le> (if cadeiras s > 1 then cadeiras s - 1 else cadeiras s)"
    and "(if cadeiras s > 1 then cadeiras s - 1 else cadeiras s) \<le> sem_max"
    by (auto simp: sem_max_def NUM_JOGADORES_def)
  then show ?thesis using True
    by (simp add: iniciar_rodada_def Let_def resize_and_refill_eq)
next
  case False
  then have "\<not> (0 \<le> (if cadeiras s > 1 then cadeiras s - 1 else cadeiras s) \<and>
     (if cadeiras s > 1 then cadeiras s - 1 else cadeiras s) \<le> sem_max)"
    by (auto simp: sem_max_def NUM_JOGADORES_def)
  then show ?thesis using False
    by (simp add: iniciar_rodada_def Let_def resize_and_refill_None)
qed

lemma iniciar_rodada_restantes:
  "iniciar_rodada s = Some s' \<Longrightarrow> jogadores_restantes s' = jogadores_restantes s"
  by (auto simp: iniciar_rodada_def Let_def split: option.splits)

text \<open>
  The coordinator thread, running alone through \<^verbatim>\<open>iniciar_rodada\<close>, computes what
  the function \<open>iniciar_rodada\<close> computes.
\<close>

lemma exec_append:
  "exec (ts @ us) s = (case exec ts s of None \<Rightarrow> None | Some s' \<Rightarrow> exec us s')"
  by (induction ts arbitrary: s) (auto split: option.splits)

lemma esgotar_passos:
  "coord s = C_esgotar \<Longrightarrow> cadeira_sem (mem s) = n \<Longrightarrow>
   exec (replicate (Suc n) Coord) s =
     Some (s\<lparr> mem := (mem s)\<lparr> cadeira_sem := 0 \<rparr>, esgotar := esgotar s + int n,
              coord := C_release \<rparr>)"
proof (induction n arbitrary: s)
  case 0
  then show ?case by (simp add: passo_coord_def try_acquire_simps)
next
  case (Suc n)
  let ?s1 = "s\<lparr> mem := (mem s)\<lparr> cadeira_sem := n \<rparr>, esgotar := esgotar s + 1 \<rparr>"
  from Suc.prems have st: "passo_coord s = Some ?s1"
    by (simp add: passo_coord_def try_acquire_simps)
  have "exec (replicate (Suc n) Coord) ?s1 =
     Some (?s1\<lparr> mem := (mem ?s1)\<lparr> cadeira_sem := 0 \<rparr>, esgotar := esgotar ?s1 + int n,
              coord := C_release \<rparr>)"
    by (rule Suc.IH) (simp_all add: Suc.prems)
  with st show ?case by simp
qed

lemma coord_iniciar_rodada:
  assumes "coord s = C_iniciar" and "\<not> jogo_mutex s" and "iniciar_rodada (mem s) = Some m'"
  shows "exec (replicate (cadeira_sem (mem s) + 4) Coord) s =
           Some (s\<lparr> mem := m', esgotar := int (cadeira_sem (mem s)), coord := C_parar \<rparr>)"
proof -
  let ?c = "if cadeiras (mem s) > 1 then cadeiras (mem s) - 1 else cadeiras (mem s)"
  let ?s1 = "s\<lparr> mem := (mem s)\<lparr> cadeiras := ?c \<rparr>, jogo_mutex := True, esgotar := 0,
                 coord := C_esgotar \<rparr>"
  let ?s2 = "?s1\<lparr> mem := (mem ?s1)\<lparr> cadeira_sem := 0 \<rparr>,
                  esgotar := esgotar ?s1 + int (cadeira_sem (mem s)), coord := C_release \<rparr>"
  from assms(3) obtain p where p: "release ?c 0 = Some p"
    and m': "m' = (mem s)\<lparr> cadeiras := ?c, cadeira_sem := p, musica_parada := False,
                   saida := saida (mem s) @
                     [IniciandoRodada (jogadores_restantes (mem s)) (NUM_JOGADORES - 1)] \<rparr>"
    by (auto simp: iniciar_rodada_def resize_and_refill_def esgotar_loop_eq Let_def
             split: option.splits)
  have a: "exec [Coord] s = Some ?s1"
    using assms(1,2) by (simp add: passo_coord_def)
  have b: "exec (replicate (Suc (cadeira_sem (mem s))) Coord) ?s1 = Some ?s2"
    by (rule esgotar_passos) simp_all
  have c: "exec [Coord, Coord] ?s2 =
             Some (s\<lparr> mem := m', esgotar := int (cadeira_sem (mem s)), coord := C_parar \<rparr>)"
    using p assms(2) by (simp add: passo_coord_def m')
  have "cadeira_sem (mem s) + 4 = 1 + (Suc (cadeira_sem (mem s)) + 2)"
    by simp
  then have "replicate (cadeira_sem (mem s) + 4) Coord =
          replicate 1 Coord @ replicate (Suc (cadeira_sem (mem s))) Coord @ replicate 2 Coord"
    by (simp only: replicate_add)
  moreover have "replicate 1 Coord = [Coord]" and "replicate 2 Coord = [Coord, Coord]"
    by (simp_all add: numeral_2_eq_2)
  ultimately have "replicate (cadeira_sem (mem s) + 4) Coord =
          [Coord] @ replicate (Suc (cadeira_sem (mem s))) Coord @ [Coord, Coord]"
    by simp
  then show ?thesis
    by (simp only: exec_append a b c option.case)
qed

section \<open>Steps of the threads\<close>

lemma passo_coord_restantes:
  "passo_coord s = Some s' \<Longrightarrow> jogadores_restantes (mem s') = jogadores_restantes (mem s)"
  by (cases "coord s")
     (auto simp: passo_coord_def parar_musica_def liberar_threads_eliminadas_def
           split: if_splits option.splits)

lemma passo_jogador_restantes:
  "passo_jogador j m b = Some r \<Longrightarrow> jogadores_restantes (snd r) \<le> jogadores_restantes m"
  by (cases "pcj j")
     (auto simp: passo_jogador_def tentar_ocupar_cadeira_def eliminar_jogador_def
           split: if_splits)

lemma step_restantes:
  "step t s = Some s' \<Longrightarrow> jogadores_restantes (mem s') \<le> jogadores_restantes (mem s)"
proof (cases t)
  case Coord
  assume "step t s = Some s'"
  with Coord show ?thesis by (simp add: passo_coord_restantes)
next
  case (Jog i)
  assume "step t s = Some s'"
  with Jog show ?thesis
    by (auto split: if_splits option.splits dest: passo_jogador_restantes)
qed

lemma exec_restantes:
  "exec ts s = Some s' \<Longrightarrow> jogadores_restantes (mem s') \<le> jogadores_restantes (mem s)"
proof (induction ts arbitrary: s)
  case Nil
  then show ?case by simp
next
  case (Cons t ts)
  then obtain s1 where s1: "step t s = Some s1" and rest: "exec ts s1 = Some s'"
    by (auto split: option.splits)
  from Cons.IH [OF rest] step_restantes [OF s1] show ?case by linarith
qed
lemma chamar_restantes:
  "chamar c s = Some s' \<Longrightarrow> jogadores_restantes s' \<le> jogadores_restantes s"
  by (cases c)
     (auto simp: parar_musica_def eliminar_jogador_def exibir_estado_def
           dest: iniciar_rodada_restantes)

lemma chamar_todas_restantes:
  "chamar_todas cs s = Some s' \<Longrightarrow> jogadores_restantes s' \<le> jogadores_restantes s"
proof (induction cs arbitrary: s)
  case Nil
  then show ?case by simp
next
  case (Cons c cs)
  then obtain s1 where s1: "chamar c s = Some s1" and rest: "chamar_todas cs s1 = Some s'"
    by (auto split: option.splits)
  from Cons.IH [OF rest] chamar_restantes [OF s1] show ?case by linarith
qed
lemma fold_eliminar:
  "jogadores_restantes (fold eliminar_jogador ids s) = jogadores_restantes s - int (length ids)"
  by (induction ids arbitrary: s) (simp_all add: eliminar_jogador_def)

lemma passo_coord_sucessos:
  assumes "passo_coord s = Some s'" and "coord s \<noteq> C_release" and "coord s \<noteq> C_liberar"
  shows "sucessos s' + cadeira_sem (mem s') \<le> sucessos s + cadeira_sem (mem s)"
  using assms
  by (cases "coord s")
     (auto simp: passo_coord_def sucessos_def parar_musica_def try_acquire_def
           split: if_splits)

lemma passo_jogador_sucessos:
  assumes "passo_jogador j m b = Some r"
  shows "length (filter conseguiu (saida (snd r))) + cadeira_sem (snd r)
           \<le> length (filter conseguiu (saida m)) + cadeira_sem m"
  using assms
  by (cases "pcj j")
     (auto simp: passo_jogador_def tentar_ocupar_cadeira_def eliminar_jogador_def
                 try_acquire_def split: if_splits)

lemma step_sucessos:
  assumes "step t s = Some s'" and "\<not> liberacao t s"
  shows "sucessos s' + cadeira_sem (mem s') \<le> sucessos s + cadeira_sem (mem s)"
proof (cases t)
  case Coord
  with assms show ?thesis by (simp add: liberacao_def passo_coord_sucessos)
next
  case (Jog i)
  with assms obtain r where r: "passo_jogador (jogadores s ! i) (mem s) (jogo_mutex s) = Some r"
    and s': "s' = s\<lparr> jogadores := (jogadores s)[i := fst r], mem := snd r \<rparr>"
    by (auto split: if_splits option.splits)
  from passo_jogador_sucessos [OF r] s' show ?thesis by (simp add: sucessos_def)
qed

lemma exec_sucessos:
  "exec ts s = Some s' \<Longrightarrow> sem_liberacao ts s \<Longrightarrow>
     sucessos s' + cadeira_sem (mem s') \<le> sucessos s + cadeira_sem (mem s)"
proof (induction ts arbitrary: s)
  case Nil
  then show ?case by simp
next
  case (Cons t ts)
  from Cons.prems(1) obtain s1 where s1: "step t s = Some s1" and rest: "exec ts s1 = Some s'"
    by (auto split: option.splits)
  from Cons.prems(2) s1 have nl: "\<not> liberacao t s" and sl: "sem_liberacao ts s1"
    by simp_all
  from Cons.IH [OF rest sl] step_sucessos [OF s1 nl] show ?case by linarith
qed

lemma tentar_nao_bloqueia:
  "i < length (jogadores s) \<Longrightarrow> pcj (jogadores s ! i) = J_tentar \<Longrightarrow> step (Jog i) s \<noteq> None"
  by (simp add: passo_jogador_def)

text \<open>What the players keep true, and that a thread which has returned stays so.\<close>

lemma passo_coord_frame:
  assumes "passo_coord s = Some s'"
  shows "jogadores s' = jogadores s"
    and "jogo_ativo (mem s') \<longrightarrow> jogo_ativo (mem s)"
    and "count_list (saida (mem s')) (Eliminado k) = count_list (saida (mem s)) (Eliminado k)"
  using assms
  by (cases "coord s";
      auto simp: passo_coord_def parar_musica_def liberar_threads_eliminadas_def
           split: if_splits option.splits)+

lemma passo_jogador_frame:
  assumes "passo_jogador j m b = Some r"
  shows "jid (fst r) = jid j"
    and "jogo_ativo (snd r) \<longrightarrow> jogo_ativo m"
    and "k \<noteq> jid j \<longrightarrow>
           count_list (saida (snd r)) (Eliminado k) = count_list (saida m) (Eliminado k)"
  using assms
  by (cases "pcj j";
      auto simp: passo_jogador_def tentar_ocupar_cadeira_def eliminar_jogador_def
           split: if_splits)+

lemma passo_jogador_inv:
  assumes "passo_jogador j m b = Some r" and "jogador_inv m i j"
  shows "jogador_inv (snd r) i (fst r)"
  using assms
  by (cases "pcj j")
     (auto simp: passo_jogador_def tentar_ocupar_cadeira_def eliminar_jogador_def
                 jogador_inv_def split: if_splits)

lemma jogador_inv_frame:
  assumes "jogador_inv m i j"
    and "jogo_ativo m' \<longrightarrow> jogo_ativo m"
    and "count_list (saida m') (Eliminado (jid j)) = count_list (saida m) (Eliminado (jid j))"
  shows "jogador_inv m' i j"
  using assms by (auto simp: jogador_inv_def)

lemma step_inv:
  assumes "step t s = Some s'" and "sistema_inv s"
  shows "sistema_inv s'"
proof (cases t)
  case Coord
  with assms(1) have pc: "passo_coord s = Some s'" by simp
  show ?thesis
    unfolding sistema_inv_def
  proof (intro allI impI)
    fix k assume "k < length (jogadores s')"
    then have k: "k < length (jogadores s)" by (simp add: passo_coord_frame(1) [OF pc])
    with assms(2) have "jogador_inv (mem s) k (jogadores s ! k)" by (simp add: sistema_inv_def)
    then have "jogador_inv (mem s') k (jogadores s ! k)"
      by (rule jogador_inv_frame) (simp_all add: passo_coord_frame [OF pc])
    then show "jogador_inv (mem s') k (jogadores s' ! k)"
      by (simp add: passo_coord_frame(1) [OF pc])
  qed
next
  case (Jog i)
  with assms(1) obtain r where i: "i < length (jogadores s)"
    and r: "passo_jogador (jogadores s ! i) (mem s) (jogo_mutex s) = Some r"
    and s': "s' = s\<lparr> jogadores := (jogadores s)[i := fst r], mem := snd r \<rparr>"
    by (auto split: if_splits option.splits)
  from assms(2) i have invi: "jogador_inv (mem s) i (jogadores s ! i)"
    by (simp add: sistema_inv_def)
  show ?thesis
    unfolding sistema_inv_def
  proof (intro allI impI)
    fix k assume "k < length (jogadores s')"
    with s' have k: "k < length (jogadores s)" by simp
    show "jogador_inv (mem s') k (jogadores s' ! k)"
    proof (cases "k = i")
      case True
      with s' i passo_jogador_inv [OF r invi] show ?thesis by simp
    next
      case False
      from assms(2) k have invk: "jogador_inv (mem s) k (jogadores s ! k)"
        by (simp add: sistema_inv_def)
      from invk invi False have "jid (jogadores s ! k) \<noteq> jid (jogadores s ! i)"
        by (simp add: jogador_inv_def)
      with passo_jogador_frame [OF r] invk have "jogador_inv (snd r) k (jogadores s ! k)"
        by (auto intro: jogador_inv_frame)
      with s' False show ?thesis by simp
    qed
  qed
qed

lemma exec_inv:
  "exec ts s = Some s' \<Longrightarrow> sistema_inv s \<Longrightarrow> sistema_inv s'"
proof (induction ts arbitrary: s)
  case Nil
  then show ?case by simp
next
  case (Cons t ts)
  from Cons.prems(1) obtain s1 where s1: "step t s = Some s1" and rest: "exec ts s1 = Some s'"
    by (auto split: option.splits)
  from Cons.IH [OF rest step_inv [OF s1 Cons.prems(2)]] show ?case .
qed

lemma jogadores_iniciais:
  "jogadores sistema_inicial =
     [\<lparr> jid = 1, eliminado = False, pcj = J_while \<rparr>, \<lparr> jid = 2, eliminado = False, pcj = J_while \<rparr>,
      \<lparr> jid = 3, eliminado = False, pcj = J_while \<rparr>, \<lparr> jid = 4, eliminado = False, pcj = J_while \<rparr>]"
  by code_simp

lemma sistema_inv_inicial: "sistema_inv sistema_inicial"
proof -
  have m: "saida (mem sistema_inicial) = []"
    by (simp add: sistema_inicial_def JogoDasCadeiras_def)
  have "jogador_inv (mem sistema_inicial) i (jogadores sistema_inicial ! i)" if "i < 4" for i
  proof -
    from that consider "i = 0" | "i = 1" | "i = 2" | "i = 3" by linarith
    then show ?thesis
      by cases (simp_all add: jogadores_iniciais jogador_inv_def m)
  qed
  then show ?thesis by (simp add: sistema_inv_def jogadores_iniciais)
qed

lemma step_fim_estavel:
  assumes "step t s = Some s'" and "i < length (jogadores s)" and "pcj (jogadores s ! i) = J_fim"
  shows "i < length (jogadores s') \<and> jogadores s' ! i = jogadores s ! i"
proof (cases t)
  case Coord
  with assms show ?thesis by (simp add: passo_coord_frame(1))
next
  case (Jog k)
  with assms(1) obtain r where k: "k < length (jogadores s)"
    and r: "passo_jogador (jogadores s ! k) (mem s) (jogo_mutex s) = Some r"
    and s': "s' = s\<lparr> jogadores := (jogadores s)[k := fst r], mem := snd r \<rparr>"
    by (auto split: if_splits option.splits)
  from r assms(3) have "k \<noteq> i" by (auto simp: passo_jogador_def)
  with s' assms(2) show ?thesis by simp
qed

lemma exec_fim_estavel:
  "exec ts s = Some s' \<Longrightarrow> i < length (jogadores s) \<Longrightarrow> pcj (jogadores s ! i) = J_fim \<Longrightarrow>
     i < length (jogadores s') \<and> jogadores s' ! i = jogadores s ! i"
proof (induction ts arbitrary: s)
  case Nil
  then show ?case by simp
next
  case (Cons t ts)
  from Cons.prems(1) obtain s1 where s1: "step t s = Some s1" and rest: "exec ts s1 = Some s'"
    by (auto split: option.splits)
  from step_fim_estavel [OF s1 Cons.prems(2,3)]
  have a: "i < length (jogadores s1)" and b: "jogadores s1 ! i = jogadores s ! i" by simp_all
  from Cons.IH [OF rest a] b Cons.prems(3) show ?case by simp
qed

lemma falha_marca:
  assumes "i < length (jogadores s)" and "pcj (jogadores s ! i) = J_tentar"
    and "cadeira_sem (mem s) = 0"
  shows "step (Jog i) s =
           Some (s\<lparr> jogadores := (jogadores s)[i := (jogadores s ! i)\<lparr> eliminado := True,
                                                                    pcj := J_verificar \<rparr>] \<rparr>)"
  using assms
  by (simp add: passo_jogador_def tentar_ocupar_cadeira_def try_acquire_def)

lemma marcado_elimina:
  assumes "i < length (jogadores s)" and "pcj (jogadores s ! i) = J_verificar"
    and "eliminado (jogadores s ! i)" and "\<not> jogo_mutex s"
  shows "step (Jog i) s =
           Some (s\<lparr> jogadores := (jogadores s)[i := (jogadores s ! i)\<lparr> pcj := J_flag \<rparr>],
                    mem := eliminar_jogador (jid (jogadores s ! i)) (mem s) \<rparr>)"
  using assms by (simp add: passo_jogador_def)

lemma flag_termina:
  assumes "i < length (jogadores s)" and "pcj (jogadores s ! i) = J_flag"
    and "eliminado (jogadores s ! i)"
  shows "step (Jog i) s =
           Some (s\<lparr> jogadores := (jogadores s)[i := (jogadores s ! i)\<lparr> pcj := J_fim \<rparr>],
                    mem := (mem s)\<lparr> jogo_ativo := False \<rparr> \<rparr>)"
  using assms by (simp add: passo_jogador_def)

lemma fim_parado:
  "i < length (jogadores s) \<Longrightarrow> pcj (jogadores s ! i) = J_fim \<Longrightarrow> step (Jog i) s = None"
  by (simp add: passo_jogador_def)

text \<open>
  The two steps of an eliminated player from \<open>J_verificar\<close> to \<open>J_fim\<close> do together
  what \<^verbatim>\<open>verificar_eliminacao\<close> does when no other thread runs in between; the one
  step of a seated player leaves the shared objects as \<^verbatim>\<open>verificar_eliminacao\<close> does.
\<close>

lemma verificar_passos:
  assumes "pcj j = J_verificar" and "eliminado j"
  shows "passo_jogador j m False = Some (j\<lparr> pcj := J_flag \<rparr>, eliminar_jogador (jid j) m)"
    and "passo_jogador (j\<lparr> pcj := J_flag \<rparr>) (eliminar_jogador (jid j) m) b =
           Some (j\<lparr> pcj := J_fim \<rparr>, verificar_eliminacao j m)"
  using assms by (simp_all add: passo_jogador_def verificar_eliminacao_def)

lemma verificar_sentado:
  assumes "pcj j = J_verificar" and "\<not> eliminado j"
  shows "passo_jogador j m b = Some (j\<lparr> pcj := J_while \<rparr>, verificar_eliminacao j m)"
  using assms by (simp add: passo_jogador_def verificar_eliminacao_def)

text \<open>Once every player has returned with two players left, only the coordinator moves.\<close>

lemma preso_coord:
  assumes "preso s"
  shows "\<exists>s'. passo_coord s = Some s' \<and> preso s'"
  using assms
  by (cases "coord s")
     (auto simp: preso_def passo_coord_def getJogadoresRestantes_def try_acquire_def
                 release_def sem_max_def NUM_JOGADORES_def parar_musica_def
                 liberar_threads_eliminadas_def)

lemma preso_jogador:
  assumes "preso s"
  shows "step (Jog i) s = None"
proof (cases "i < length (jogadores s)")
  case True
  with assms have "pcj (jogadores s ! i) = J_fim"
    by (simp add: preso_def list_all_length)
  then show ?thesis by (simp add: passo_jogador_def)
next
  case False
  then show ?thesis by simp
qed

lemma preso_sempre:
  "preso s \<Longrightarrow> \<exists>s'. exec (replicate n Coord) s = Some s' \<and> preso s'"
proof (induction n arbitrary: s)
  case 0
  then show ?case by simp
next
  case (Suc n)
  from preso_coord [OF Suc.prems] obtain s1 where s1: "passo_coord s = Some s1" and p1: "preso s1"
    by blast
  from Suc.IH [OF p1] s1 show ?case by simp
qed

lemma preso_fatos:
  "preso s \<Longrightarrow> coord s \<noteq> C_fim \<and> jogadores_restantes (mem s) = 2"
  by (auto simp: preso_def)

lemma exec_presa: "map_option preso (exec agenda_presa sistema_inicial) = Some True"
  by code_simp

lemma corrida_alcancada: "exec agenda_corrida sistema_inicial = Some corrida"
  by code_simp

section \<open>The properties\<close>

text \<open>
  C1. The specification asks that a round that begins with more than one player
  left has one chair fewer than players (at least one), and that the first round
  of an \<open>N\<close>-player game has \<open>N - 1\<close> chairs. The program does otherwise: \<^verbatim>\<open>iniciar_rodada\<close> lowers
  \<^verbatim>\<open>cadeiras\<close> before the first round too. With the four players of
  \<^verbatim>\<open>NUM_JOGADORES\<close> the first round refills the semaphore with 2 permits while 4
  players remain, and announces 3 chairs; the coordinator thread reaches
  \<^verbatim>\<open>parar_musica\<close> in that state.
\<close>

theorem C1_primeira_rodada_duas_cadeiras:
  "map_option (\<lambda>s. (jogadores_restantes s, cadeiras s, cadeira_sem s, saida s))
     (iniciar_rodada (JogoDasCadeiras NUM_JOGADORES)) = Some (4, 2, 2, [IniciandoRodada 4 3]) \<and>
   map_option (\<lambda>s. (coord s, jogadores_restantes (mem s), cadeiras (mem s), cadeira_sem (mem s)))
     (exec (replicate 8 Coord) sistema_inicial) = Some (C_parar, 4, 2, 2)"
  by code_simp

text \<open>
  C2. The specification asks that with at least two players the whole simulation
  ends, no thread is left running or waiting, and one player remains. The program
  does otherwise.
  The schedule \<open>agenda_presa\<close> of the four-player game leads to a state in which
  every player thread has returned; from there, however many steps the coordinator
  takes, it can take them, it has not returned, two players remain, and no player
  thread can move. So the coordinator runs its loop for ever. The schedule
  \<open>agenda_zero\<close> ends with every thread returned and no player remaining.
\<close>

theorem C2_coordenador_nao_termina:
  "(\<exists>s. exec agenda_presa sistema_inicial = Some s \<and>
        list_all (\<lambda>j. pcj j = J_fim) (jogadores s) \<and>
        (\<forall>n. \<exists>s'. exec (replicate n Coord) s = Some s' \<and>
               coord s' \<noteq> C_fim \<and> jogadores_restantes (mem s') = 2 \<and>
               (\<forall>i. step (Jog i) s' = None))) \<and>
   map_option (\<lambda>s. (coord s, map pcj (jogadores s), jogadores_restantes (mem s)))
     (exec agenda_zero sistema_inicial) = Some (C_fim, [J_fim, J_fim, J_fim, J_fim], 0)"
proof -
  from exec_presa obtain s where s: "exec agenda_presa sistema_inicial = Some s" and p: "preso s"
    by auto
  have fim: "list_all (\<lambda>j. pcj j = J_fim) (jogadores s)"
    using p by (simp add: preso_def)
  have sempre: "\<exists>s'. exec (replicate n Coord) s = Some s' \<and>
               coord s' \<noteq> C_fim \<and> jogadores_restantes (mem s') = 2 \<and>
               (\<forall>i. step (Jog i) s' = None)" for n
  proof -
    from preso_sempre [OF p] obtain s' where "exec (replicate n Coord) s = Some s'" and "preso s'"
      by blast
    then show ?thesis using preso_fatos preso_jogador by blast
  qed
  have zero: "map_option (\<lambda>s. (coord s, map pcj (jogadores s), jogadores_restantes (mem s)))
     (exec agenda_zero sistema_inicial) = Some (C_fim, [J_fim, J_fim, J_fim, J_fim], 0)"
    by code_simp
  from s fim sempre zero show ?thesis by blast
qed

text \<open>
  C3. \<^verbatim>\<open>try_acquire\<close> succeeds exactly when the permit count is not zero, a success
  takes exactly one permit and a failure none; a player standing before
  \<^verbatim>\<open>tentar_ocupar_cadeira\<close> can always take that step (the call does not wait);
  and along any schedule that contains neither the refill nor the bulk release,
  the successful claims of the players plus the permits left never exceed what
  was there at the start, so at most as many claims succeed as there were permits.
\<close>

theorem C3_sem_excesso_de_cadeiras:
  "fst (try_acquire p) = (p \<noteq> 0) \<and>
   (fst (try_acquire p) \<longrightarrow> snd (try_acquire p) + 1 = p) \<and>
   (\<not> fst (try_acquire p) \<longrightarrow> snd (try_acquire p) = p) \<and>
   (i < length (jogadores z) \<and> pcj (jogadores z ! i) = J_tentar \<longrightarrow> step (Jog i) z \<noteq> None) \<and>
   (exec ts s = Some s' \<and> sem_liberacao ts s \<longrightarrow>
      sucessos s' + cadeira_sem (mem s') \<le> sucessos s + cadeira_sem (mem s) \<and>
      sucessos s' - sucessos s \<le> cadeira_sem (mem s))"
proof -
  have a: "fst (try_acquire p) = (p \<noteq> 0)"
    "fst (try_acquire p) \<longrightarrow> snd (try_acquire p) + 1 = p"
    "\<not> fst (try_acquire p) \<longrightarrow> snd (try_acquire p) = p"
    by (simp_all add: try_acquire_def)
  have b: "i < length (jogadores z) \<and> pcj (jogadores z ! i) = J_tentar \<longrightarrow> step (Jog i) z \<noteq> None"
    using tentar_nao_bloqueia by blast
  have c: "exec ts s = Some s' \<and> sem_liberacao ts s \<longrightarrow>
      sucessos s' + cadeira_sem (mem s') \<le> sucessos s + cadeira_sem (mem s) \<and>
      sucessos s' - sucessos s \<le> cadeira_sem (mem s)"
  proof
    assume h: "exec ts s = Some s' \<and> sem_liberacao ts s"
    then have "sucessos s' + cadeira_sem (mem s') \<le> sucessos s + cadeira_sem (mem s)"
      using exec_sucessos by blast
    then show "sucessos s' + cadeira_sem (mem s') \<le> sucessos s + cadeira_sem (mem s) \<and>
      sucessos s' - sucessos s \<le> cadeira_sem (mem s)"
      by linarith
  qed
  from a b c show ?thesis by blast
qed

theorem C3_sem_excesso_de_cadeiras_witness:
  "fst (try_acquire 2) \<and> snd (try_acquire 2) + 1 = 2 \<and>
   0 < length (jogadores corrida) \<and> pcj (jogadores corrida ! 0) = J_tentar \<and>
   step (Jog 0) corrida \<noteq> None \<and>
   sem_liberacao todos corrida \<and> cadeira_sem (mem corrida) = 2 \<and>
   map_option (\<lambda>s'. sucessos s' - sucessos corrida) (exec todos corrida) = Some 2 \<and>
   map_option (\<lambda>s'. sucessos s' - sucessos corrida \<le> cadeira_sem (mem corrida))
     (exec todos corrida) = Some True"
proof -
  have sl: "sem_liberacao todos corrida"
    by code_simp
  have n: "map_option (\<lambda>s'. sucessos s' - sucessos corrida) (exec todos corrida) = Some 2"
    by code_simp
  then obtain s' where e: "exec todos corrida = Some s'"
    by auto
  have j: "0 < length (jogadores corrida)" "pcj (jogadores corrida ! 0) = J_tentar"
    "cadeira_sem (mem corrida) = 2"
    by (simp_all add: corrida_def)
  show ?thesis
    using C3_sem_excesso_de_cadeiras [of 2 0 corrida todos corrida s'] sl n e j
    by simp
qed

text \<open>
  C4. Whatever the permit count was before, the bulk release of
  \<^verbatim>\<open>liberar_threads_eliminadas\<close> included, the drain loop takes every permit
  (leaving 0 and counting them), and the drain followed by \<^verbatim>\<open>release(newCount)\<close>
  leaves exactly \<open>newCount\<close> permits, for every \<open>newCount\<close> that \<^verbatim>\<open>release\<close> accepts
  on an empty semaphore.
\<close>

theorem C4_esgota_e_repoe:
  "esgotar_loop p e = (0, e + int p) \<and>
   (0 \<le> newCount \<and> newCount \<le> sem_max \<longrightarrow>
      resize_and_refill newCount p = Some (nat newCount) \<and>
      (\<forall>s s'. liberar_threads_eliminadas s = Some s' \<longrightarrow>
         resize_and_refill newCount (cadeira_sem s') = Some (nat newCount)))"
  by (simp add: esgotar_loop_eq resize_and_refill_eq)

theorem C4_esgota_e_repoe_witness:
  "(0::int) \<le> 2 \<and> 2 \<le> sem_max \<and> esgotar_loop 3 0 = (0, 3) \<and>
   resize_and_refill 2 3 = Some 2 \<and>
   liberar_threads_eliminadas (JogoDasCadeiras 4\<lparr> cadeira_sem := 1 \<rparr>) =
     Some (JogoDasCadeiras 4\<lparr> cadeira_sem := 4 \<rparr>) \<and>
   resize_and_refill 2 (cadeira_sem (JogoDasCadeiras 4\<lparr> cadeira_sem := 4 \<rparr>)) = Some 2"
proof -
  have l: "liberar_threads_eliminadas (JogoDasCadeiras 4\<lparr> cadeira_sem := 1 \<rparr>) =
     Some (JogoDasCadeiras 4\<lparr> cadeira_sem := 4 \<rparr>)"
    by (simp add: liberar_threads_eliminadas_def release_def sem_max_def NUM_JOGADORES_def)
  have m: "(2::int) \<le> sem_max"
    by (simp add: sem_max_def NUM_JOGADORES_def)
  from C4_esgota_e_repoe [of 3 0 2] m
  have d: "esgotar_loop 3 0 = (0, 3)" and r: "resize_and_refill 2 3 = Some 2"
    and a: "\<forall>s s'. liberar_threads_eliminadas s = Some s' \<longrightarrow>
         resize_and_refill 2 (cadeira_sem s') = Some 2"
    by simp_all
  from a l have "resize_and_refill 2 (cadeira_sem (JogoDasCadeiras 4\<lparr> cadeira_sem := 4 \<rparr>)) = Some 2"
    by blast
  with d r l m show ?thesis by simp
qed

text \<open>
  C5. In every state the four-player game reaches, for every player: the player
  has its own id; if it stands before \<^verbatim>\<open>tentar_ocupar_cadeira\<close> and no permit is
  left, its step marks it as eliminated and leads to \<^verbatim>\<open>verificar_eliminacao\<close>;
  there, once the mutex is free, its step is \<^verbatim>\<open>eliminar_jogador\<close> with its own id;
  its next step clears \<^verbatim>\<open>jogo_ativo\<close> and returns from \<^verbatim>\<open>joga\<close>; a player that has
  returned takes no further step and is never changed again; a player marked as
  eliminated stands only in \<^verbatim>\<open>verificar_eliminacao\<close> or has returned, so it never
  claims again; its elimination has been reported exactly once when it has passed
  \<^verbatim>\<open>eliminar_jogador\<close> and not at all before; and when an eliminated player has
  returned, \<^verbatim>\<open>jogo_ativo\<close> is false.
\<close>

theorem C5_eliminado_uma_vez:
  assumes "exec ts sistema_inicial = Some s" and "i < length (jogadores s)"
  shows "jid (jogadores s ! i) = int i + 1 \<and>
    (pcj (jogadores s ! i) = J_tentar \<and> cadeira_sem (mem s) = 0 \<longrightarrow>
       step (Jog i) s =
         Some (s\<lparr> jogadores := (jogadores s)[i := (jogadores s ! i)\<lparr> eliminado := True,
                                                                  pcj := J_verificar \<rparr>] \<rparr>)) \<and>
    (pcj (jogadores s ! i) = J_verificar \<and> eliminado (jogadores s ! i) \<and> \<not> jogo_mutex s \<longrightarrow>
       step (Jog i) s =
         Some (s\<lparr> jogadores := (jogadores s)[i := (jogadores s ! i)\<lparr> pcj := J_flag \<rparr>],
                  mem := eliminar_jogador (jid (jogadores s ! i)) (mem s) \<rparr>)) \<and>
    (pcj (jogadores s ! i) = J_flag \<longrightarrow>
       step (Jog i) s =
         Some (s\<lparr> jogadores := (jogadores s)[i := (jogadores s ! i)\<lparr> pcj := J_fim \<rparr>],
                  mem := (mem s)\<lparr> jogo_ativo := False \<rparr> \<rparr>)) \<and>
    (pcj (jogadores s ! i) = J_fim \<longrightarrow>
       step (Jog i) s = None \<and>
       (\<forall>us s'. exec us s = Some s' \<longrightarrow> jogadores s' ! i = jogadores s ! i)) \<and>
    (eliminado (jogadores s ! i) \<longrightarrow>
       pcj (jogadores s ! i) = J_verificar \<or> pcj (jogadores s ! i) = J_flag \<or>
       pcj (jogadores s ! i) = J_fim) \<and>
    count_list (saida (mem s)) (Eliminado (jid (jogadores s ! i))) =
      (if eliminado (jogadores s ! i) \<and>
          (pcj (jogadores s ! i) = J_flag \<or> pcj (jogadores s ! i) = J_fim) then 1 else 0) \<and>
    (eliminado (jogadores s ! i) \<and> pcj (jogadores s ! i) = J_fim \<longrightarrow> \<not> jogo_ativo (mem s))"
proof -
  from exec_inv [OF assms(1) sistema_inv_inicial] assms(2)
  have inv: "jogador_inv (mem s) i (jogadores s ! i)"
    by (simp add: sistema_inv_def)
  have fl: "pcj (jogadores s ! i) = J_flag \<longrightarrow> eliminado (jogadores s ! i)"
    using inv by (simp add: jogador_inv_def)
  have est: "pcj (jogadores s ! i) = J_fim \<longrightarrow>
       (\<forall>us s'. exec us s = Some s' \<longrightarrow> jogadores s' ! i = jogadores s ! i)"
    using exec_fim_estavel [OF _ assms(2)] by blast
  show ?thesis
    using inv fl est falha_marca [OF assms(2)] marcado_elimina [OF assms(2)]
      flag_termina [OF assms(2)] fim_parado [OF assms(2)]
    unfolding jogador_inv_def by blast
qed

theorem C5_eliminado_uma_vez_witness:
  "map_option (\<lambda>s. (length (jogadores s), pcj (jogadores s ! 2), cadeira_sem (mem s)))
     (exec agenda_disputa sistema_inicial) = Some (4, J_tentar, 0) \<and>
   map_option
     (\<lambda>s. (jid (jogadores s ! 2),
           map_option (\<lambda>s1. (eliminado (jogadores s1 ! 2), pcj (jogadores s1 ! 2)))
             (step (Jog 2) s),
           count_list (saida (mem s)) (Eliminado (jid (jogadores s ! 2)))))
     (exec agenda_disputa sistema_inicial) = Some (3, Some (True, J_verificar), 0)"
proof -
  have a: "map_option (\<lambda>s. (length (jogadores s), pcj (jogadores s ! 2), cadeira_sem (mem s)))
     (exec agenda_disputa sistema_inicial) = Some (4, J_tentar, 0)"
    by code_simp
  then obtain s where e: "exec agenda_disputa sistema_inicial = Some s"
    and l: "length (jogadores s) = 4" and p: "pcj (jogadores s ! 2) = J_tentar"
    and c: "cadeira_sem (mem s) = 0"
    by auto
  from l have i: "2 < length (jogadores s)"
    by simp
  from C5_eliminado_uma_vez [OF e i] p c
  have id: "jid (jogadores s ! 2) = 3"
    and st: "step (Jog 2) s =
         Some (s\<lparr> jogadores := (jogadores s)[2 := (jogadores s ! 2)\<lparr> eliminado := True,
                                                                  pcj := J_verificar \<rparr>] \<rparr>)"
    and ct: "count_list (saida (mem s)) (Eliminado (jid (jogadores s ! 2))) = 0"
    by auto
  have "map_option (\<lambda>s1. (eliminado (jogadores s1 ! 2), pcj (jogadores s1 ! 2))) (step (Jog 2) s)
          = Some (True, J_verificar)"
    using i by (simp only: st) simp
  with a e id ct show ?thesis
    by (simp only: option.map prod.inject simp_thms)
qed

text \<open>
  C6. \<^verbatim>\<open>iniciar_rodada\<close> returns for every state whose \<^verbatim>\<open>cadeiras\<close> is between 0 and
  one more than the capacity of the semaphore, and whenever it returns:
  \<^verbatim>\<open>cadeiras\<close> is one less than before if it was greater than 1 and unchanged
  otherwise, it is at least 1 if it was at least 1 before, and the semaphore
  holds exactly \<^verbatim>\<open>cadeiras\<close> permits.
\<close>

theorem C6_cadeiras_diminui_ate_um:
  "(0 \<le> cadeiras s \<and> cadeiras s \<le> sem_max + 1 \<longrightarrow> (\<exists>s'. iniciar_rodada s = Some s')) \<and>
   (\<forall>s'. iniciar_rodada s = Some s' \<longrightarrow>
      cadeiras s' = (if cadeiras s > 1 then cadeiras s - 1 else cadeiras s) \<and>
      (1 \<le> cadeiras s \<longrightarrow> 1 \<le> cadeiras s') \<and>
      int (cadeira_sem s') = cadeiras s')"
  by (auto simp add: iniciar_rodada_eq split: if_splits)

theorem C6_cadeiras_diminui_ate_um_witness:
  "0 \<le> cadeiras (JogoDasCadeiras 4) \<and> cadeiras (JogoDasCadeiras 4) \<le> sem_max + 1 \<and>
   cadeiras (JogoDasCadeiras 4) = 3 \<and>
   map_option (\<lambda>s'. (cadeiras s', cadeira_sem s')) (iniciar_rodada (JogoDasCadeiras 4)) =
     Some (2, 2)"
proof -
  have h: "0 \<le> cadeiras (JogoDasCadeiras 4) \<and> cadeiras (JogoDasCadeiras 4) \<le> sem_max + 1"
    "cadeiras (JogoDasCadeiras 4) = 3"
    by (simp_all add: JogoDasCadeiras_def sem_max_def NUM_JOGADORES_def)
  with C6_cadeiras_diminui_ate_um [of "JogoDasCadeiras 4"]
  obtain s' where e: "iniciar_rodada (JogoDasCadeiras 4) = Some s'"
    by blast
  with C6_cadeiras_diminui_ate_um [of "JogoDasCadeiras 4"] h
  have "cadeiras s' = 2" and "int (cadeira_sem s') = cadeiras s'"
    by auto
  with e h show ?thesis by simp
qed

text \<open>
  C7. For every value \<open>v\<close> that \<^verbatim>\<open>release\<close> accepts on an empty semaphore and every
  permit count before, draining and refilling with \<open>v\<close> twice in a row leaves
  \<open>v\<close> permits, the same as doing it once.
\<close>

theorem C7_repor_idempotente:
  "0 \<le> v \<and> v \<le> sem_max \<longrightarrow>
     Option.bind (resize_and_refill v p) (resize_and_refill v) = Some (nat v) \<and>
     Option.bind (resize_and_refill v p) (resize_and_refill v) = resize_and_refill v p"
  by (simp add: resize_and_refill_eq)

theorem C7_repor_idempotente_witness:
  "(0::int) \<le> 3 \<and> 3 \<le> sem_max \<and>
   Option.bind (resize_and_refill 3 1) (resize_and_refill 3) = Some (nat 3) \<and>
   Option.bind (resize_and_refill 3 1) (resize_and_refill 3) = resize_and_refill 3 1"
proof -
  have m: "(0::int) \<le> 3 \<and> 3 \<le> sem_max"
    by (simp add: sem_max_def NUM_JOGADORES_def)
  with C7_repor_idempotente [of 3 1] show ?thesis
    by blast
qed

text \<open>
  C8. \<^verbatim>\<open>jogadores_restantes\<close> never grows: not by a call of a public method of
  \<^verbatim>\<open>JogoDasCadeiras\<close>, not by a sequence of such calls, not by a step of a thread
  of the game, not along a schedule; and \<^verbatim>\<open>eliminar_jogador\<close> always returns and
  lowers it by exactly 1.
\<close>

theorem C8_restantes_nao_cresce:
  "(\<forall>s'. chamar c s = Some s' \<longrightarrow> jogadores_restantes s' \<le> jogadores_restantes s) \<and>
   (\<forall>s'. chamar_todas cs s = Some s' \<longrightarrow> jogadores_restantes s' \<le> jogadores_restantes s) \<and>
   chamar (EliminarJogador i) s = Some (eliminar_jogador i s) \<and>
   jogadores_restantes (eliminar_jogador i s) = jogadores_restantes s - 1 \<and>
   (\<forall>z'. step t z = Some z' \<longrightarrow>
      jogadores_restantes (mem z') \<le> jogadores_restantes (mem z)) \<and>
   (\<forall>z'. exec ts z = Some z' \<longrightarrow>
      jogadores_restantes (mem z') \<le> jogadores_restantes (mem z))"
  by (simp add: chamar_restantes chamar_todas_restantes step_restantes exec_restantes
        eliminar_jogador_def)

theorem C8_restantes_nao_cresce_witness:
  "map_option jogadores_restantes
     (chamar_todas [IniciarRodada, PararMusica, EliminarJogador 3, ExibirEstado]
        (JogoDasCadeiras 4)) = Some 3 \<and>
   map_option (\<lambda>s'. jogadores_restantes s' \<le> jogadores_restantes (JogoDasCadeiras 4))
     (chamar_todas [IniciarRodada, PararMusica, EliminarJogador 3, ExibirEstado]
        (JogoDasCadeiras 4)) = Some True \<and>
   map_option (\<lambda>z'. jogadores_restantes (mem z')) (exec agenda_zero sistema_inicial) = Some 0 \<and>
   map_option (\<lambda>z'. jogadores_restantes (mem z') \<le> jogadores_restantes (mem sistema_inicial))
     (exec agenda_zero sistema_inicial) = Some True"
proof -
  have a: "map_option jogadores_restantes
     (chamar_todas [IniciarRodada, PararMusica, EliminarJogador 3, ExibirEstado]
        (JogoDasCadeiras 4)) = Some 3"
    by code_simp
  then obtain s' where s': "chamar_todas [IniciarRodada, PararMusica, EliminarJogador 3, ExibirEstado]
        (JogoDasCadeiras 4) = Some s'"
    by auto
  have b: "map_option (\<lambda>z'. jogadores_restantes (mem z')) (exec agenda_zero sistema_inicial) = Some 0"
    by code_simp
  then obtain z' where z': "exec agenda_zero sistema_inicial = Some z'"
    by auto
  show ?thesis
    using a b s' z' C8_restantes_nao_cresce [of IniciarRodada "JogoDasCadeiras 4"
        "[IniciarRodada, PararMusica, EliminarJogador 3, ExibirEstado]" 3 Coord sistema_inicial
        agenda_zero]
    by simp
qed

text \<open>
  C9. \<^verbatim>\<open>eliminar_jogador\<close> lowers \<^verbatim>\<open>jogadores_restantes\<close> by 1 whatever its value,
  zero included; a sequence of calls lowers it by the number of calls; so more
  calls than the game had players leave it negative.
\<close>

theorem C9_eliminar_sem_piso:
  "jogadores_restantes (eliminar_jogador i s) = jogadores_restantes s - 1 \<and>
   jogadores_restantes (fold eliminar_jogador ids s) = jogadores_restantes s - int (length ids) \<and>
   (n < int (length ids) \<longrightarrow>
      jogadores_restantes (fold eliminar_jogador ids (JogoDasCadeiras n)) < 0)"
  by (simp add: fold_eliminar) (simp add: eliminar_jogador_def JogoDasCadeiras_def)

theorem C9_eliminar_sem_piso_witness:
  "(4::int) < int (length [1, 2, 3, 4, 1 :: int]) \<and>
   jogadores_restantes (fold eliminar_jogador [1, 2, 3, 4, 1] (JogoDasCadeiras 4)) < 0 \<and>
   jogadores_restantes (eliminar_jogador 1 ((JogoDasCadeiras 4)\<lparr> jogadores_restantes := 0 \<rparr>)) = - 1"
  using C9_eliminar_sem_piso
    [of 1 "(JogoDasCadeiras 4)\<lparr> jogadores_restantes := 0 \<rparr>" "[1, 2, 3, 4, 1]" 4]
  by simp

text \<open>
  C10. \<^verbatim>\<open>iniciar_rodada\<close> returns for every state whose \<^verbatim>\<open>cadeiras\<close> is between 0
  and one more than the capacity of the semaphore, and whenever it returns,
  \<^verbatim>\<open>jogadores_restantes\<close>, \<^verbatim>\<open>num_jogadores\<close> and \<^verbatim>\<open>jogo_ativo\<close> are what they were:
  the new state is the old one with other values for \<^verbatim>\<open>cadeiras\<close>, the permit
  count and the output, and with \<^verbatim>\<open>musica_parada\<close> false.
\<close>

theorem C10_iniciar_rodada_preserva_restantes:
  "(0 \<le> cadeiras s \<and> cadeiras s \<le> sem_max + 1 \<longrightarrow> (\<exists>s'. iniciar_rodada s = Some s')) \<and>
   (\<forall>s'. iniciar_rodada s = Some s' \<longrightarrow>
      jogadores_restantes s' = jogadores_restantes s \<and>
      num_jogadores s' = num_jogadores s \<and>
      jogo_ativo s' = jogo_ativo s \<and>
      s' = s\<lparr> cadeiras := cadeiras s', cadeira_sem := cadeira_sem s',
               musica_parada := False, saida := saida s' \<rparr>)"
  by (auto simp add: iniciar_rodada_eq split: if_splits)

theorem C10_iniciar_rodada_preserva_restantes_witness:
  "0 \<le> cadeiras (JogoDasCadeiras 2) \<and> cadeiras (JogoDasCadeiras 2) \<le> sem_max + 1 \<and>
   jogadores_restantes (JogoDasCadeiras 2) = 2 \<and>
   map_option jogadores_restantes (iniciar_rodada (JogoDasCadeiras 2)) = Some 2"
proof -
  have h: "0 \<le> cadeiras (JogoDasCadeiras 2) \<and> cadeiras (JogoDasCadeiras 2) \<le> sem_max + 1"
    "jogadores_restantes (JogoDasCadeiras 2) = 2"
    by (simp_all add: JogoDasCadeiras_def sem_max_def NUM_JOGADORES_def)
  with C10_iniciar_rodada_preserva_restantes [of "JogoDasCadeiras 2"]
  obtain s' where e: "iniciar_rodada (JogoDasCadeiras 2) = Some s'"
    by blast
  with C10_iniciar_rodada_preserva_restantes [of "JogoDasCadeiras 2"]
  have "jogadores_restantes s' = jogadores_restantes (JogoDasCadeiras 2)"
    by blast
  with e h show ?thesis by simp
qed

end
